theory Spec2Isabelle
  imports Complex_Main
begin

section \<open>Battery charging and discharging simulator (jeni.py)\<close>

text \<open>
  The simulator computes with Python floats. They are embedded as \<^typ>\<open>real\<close>: every
  operation is the exact one, without IEEE-754 rounding. Python integers (cell counts, the
  duration, the speed) are \<^typ>\<open>int\<close>, the mode is the string the source compares with
  \<open>"Charging"\<close>, and the only exception the engine can raise, the division by a zero
  capacity, is a value of the result type.
\<close>

subsection \<open>Configuration: the chemistry table and the pack totals\<close>

text \<open>One value of the dictionary \<open>battery_types\<close>, with its keys
  \<open>"voltage"\<close>, \<open>"capacity"\<close> and \<open>"efficiency"\<close>.\<close>

record battery_config =
  b_voltage :: real
  b_capacity :: real
  b_efficiency :: real

text \<open>The dictionary itself, in the order of the source (lines 7 to 12).\<close>

definition battery_types :: "(string \<times> battery_config) list" where
  "battery_types =
    [(''Lithium-Ion'', \<lparr>b_voltage = 3.7, b_capacity = 2.5, b_efficiency = 0.95\<rparr>),
     (''Lead-Acid'', \<lparr>b_voltage = 2.0, b_capacity = 5.0, b_efficiency = 0.85\<rparr>),
     (''NiMH'', \<lparr>b_voltage = 1.2, b_capacity = 2.0, b_efficiency = 0.75\<rparr>),
     (''Solid-State'', \<lparr>b_voltage = 3.8, b_capacity = 3.0, b_efficiency = 0.98\<rparr>)]"

datatype error = KeyError | ZeroDivisionError

text \<open>\<open>b_config = battery_types[battery_type]\<close> (line 24): a missing key raises.\<close>

definition b_config :: "string \<Rightarrow> error + battery_config" where
  "b_config battery_type =
    (case map_of battery_types battery_type of
       None \<Rightarrow> Inl KeyError
     | Some c \<Rightarrow> Inr c)"

text \<open>The two module-level values the engine reads (lines 25 and 26).\<close>

record pack =
  total_voltage :: real
  total_capacity :: real

definition battery_parameters :: "battery_config \<Rightarrow> int \<Rightarrow> int \<Rightarrow> pack" where
  "battery_parameters cfg series_cells parallel_cells =
    \<lparr>total_voltage = b_voltage cfg * of_int series_cells,
     total_capacity = b_capacity cfg * of_int parallel_cells\<rparr>"

subsection \<open>The simulation engine\<close>

definition time_step :: real where
  "time_step = 1.0"

definition c_rate :: real where
  "c_rate = 0.5"

text \<open>\<open>np.arange(start, stop, step)\<close>: \<open>ceil((stop - start) / step)\<close> points
  \<open>start + i * step\<close>, none when that number is not positive.\<close>

definition arange :: "real \<Rightarrow> real \<Rightarrow> real \<Rightarrow> real list" where
  "arange start stop step =
    map (\<lambda>i. start + real i * step) [0 ..< nat \<lceil>(stop - start) / step\<rceil>]"

text \<open>The variables the loop of \<open>simulate_battery\<close> updates: the running state of charge
  and the three lists it appends to.\<close>

record sim_state =
  soc_val :: real
  soc :: "real list"
  current :: "real list"
  voltage :: "real list"

text \<open>One pass through the loop body (lines 58 to 83). The quotient by
  \<open>total_capacity\<close> raises \<open>ZeroDivisionError\<close> when the capacity is zero. The power
  \<open>** 0.5\<close> is \<open>powr\<close>, which agrees with Python on the non-negative bases the loop
  produces.\<close>

definition loop_body :: "pack \<Rightarrow> string \<Rightarrow> real \<Rightarrow> sim_state \<Rightarrow> error + sim_state" where
  "loop_body g sim_mode base_current st =
    (if total_capacity g = 0 then Inl ZeroDivisionError
     else
       let delta_soc = (base_current * time_step / 3600) / total_capacity g * 100;
           new_soc = (if sim_mode = ''Charging''
                      then min 100 (soc_val st + delta_soc)
                      else max 0 (soc_val st - delta_soc));
           current_val = (if sim_mode = ''Charging''
                          then (if new_soc < 100 then base_current else 0)
                          else (if new_soc > 0 then - base_current else 0));
           voltage_factor = (if sim_mode = ''Charging''
                             then 0.85 + 0.15 * (new_soc / 100) powr 0.5
                             else 0.75 + 0.25 * (new_soc / 100));
           voltage_val = total_voltage g * voltage_factor
       in Inr \<lparr>soc_val = new_soc,
               soc = soc st @ [new_soc],
               current = current st @ [current_val],
               voltage = voltage st @ [voltage_val]\<rparr>)"

text \<open>\<open>for t in time\<close>: the body runs once per grid point and does not read \<open>t\<close>; an
  exception leaves the loop.\<close>

fun for_loop :: "pack \<Rightarrow> string \<Rightarrow> real \<Rightarrow> real list \<Rightarrow> sim_state \<Rightarrow> error + sim_state" where
  "for_loop g sim_mode base_current [] st = Inr st"
| "for_loop g sim_mode base_current (t # ts) st =
    (case loop_body g sim_mode base_current st of
       Inl e \<Rightarrow> Inl e
     | Inr st' \<Rightarrow> for_loop g sim_mode base_current ts st')"

text \<open>The returned \<open>DataFrame\<close> with its four columns
  \<open>"Time (s)"\<close>, \<open>"SOC (%)"\<close>, \<open>"Current (A)"\<close>, \<open>"Voltage (V)"\<close>.\<close>

record dataframe =
  Time_s :: "real list"
  SOC_pct :: "real list"
  Current_A :: "real list"
  Voltage_V :: "real list"

text \<open>\<open>simulate_battery(sim_mode, duration, speed)\<close>, with the module-level pack totals as
  the first argument. The argument \<open>speed\<close> is not read by the body.\<close>

definition simulate_battery :: "pack \<Rightarrow> string \<Rightarrow> int \<Rightarrow> int \<Rightarrow> error + dataframe" where
  "simulate_battery g sim_mode duration speed =
    (let time = arange 0 (of_int duration + time_step) time_step;
         soc_val0 = (if sim_mode = ''Charging'' then 0 else 100);
         base_current = total_capacity g * c_rate
     in case for_loop g sim_mode base_current time
               \<lparr>soc_val = soc_val0, soc = [], current = [], voltage = []\<rparr> of
          Inl e \<Rightarrow> Inl e
        | Inr st \<Rightarrow>
            Inr \<lparr>Time_s = time, SOC_pct = soc st, Current_A = current st,
                 Voltage_V = voltage st\<rparr>)"

subsection \<open>Closed forms of one sample\<close>

text \<open>The state of charge after \<open>k\<close> passes of the loop from the value \<open>s\<close>, and the
  current and the voltage the loop body derives from a state of charge. These three
  functions only name the expressions of the loop body for the proofs below.\<close>

definition soc_at :: "string \<Rightarrow> real \<Rightarrow> nat \<Rightarrow> real" where
  "soc_at sim_mode s k =
    (if sim_mode = ''Charging'' then min 100 (s + real k / 72) else max 0 (s - real k / 72))"

definition current_at :: "string \<Rightarrow> real \<Rightarrow> real \<Rightarrow> real" where
  "current_at sim_mode base_current x =
    (if sim_mode = ''Charging'' then (if x < 100 then base_current else 0)
     else (if x > 0 then - base_current else 0))"

definition voltage_at :: "pack \<Rightarrow> string \<Rightarrow> real \<Rightarrow> real" where
  "voltage_at g sim_mode x =
    total_voltage g * (if sim_mode = ''Charging'' then 0.85 + 0.15 * (x / 100) powr 0.5
                       else 0.75 + 0.25 * (x / 100))"

section \<open>The loop in closed form\<close>

lemma delta_soc_value:
  "tc \<noteq> 0 \<Longrightarrow> (tc * c_rate * time_step / 3600) / tc * 100 = 1 / 72"
  by (simp add: c_rate_def time_step_def)

lemma soc_at_0: "0 \<le> s \<Longrightarrow> s \<le> 100 \<Longrightarrow> soc_at m s 0 = s"
  by (simp add: soc_at_def)

lemma soc_at_shift: "soc_at m (soc_at m s (Suc 0)) k = soc_at m s (Suc k)"
  by (simp add: soc_at_def min_def max_def field_simps)

lemma loop_body_eq:
  assumes "total_capacity g \<noteq> 0"
  shows "loop_body g m (total_capacity g * c_rate) st =
    Inr \<lparr>soc_val = soc_at m (soc_val st) 1,
         soc = soc st @ [soc_at m (soc_val st) 1],
         current = current st @ [current_at m (total_capacity g * c_rate) (soc_at m (soc_val st) 1)],
         voltage = voltage st @ [voltage_at g m (soc_at m (soc_val st) 1)]\<rparr>"
proof -
  have d: "(total_capacity g * c_rate * time_step / 3600) / total_capacity g * 100 = 1 / 72"
    using assms by (rule delta_soc_value)
  show ?thesis
    using assms unfolding loop_body_def Let_def d
    by (simp add: soc_at_def current_at_def voltage_at_def)
qed

lemma for_loop_eq:
  assumes "total_capacity g \<noteq> 0" and "0 \<le> soc_val st" and "soc_val st \<le> 100"
  shows "for_loop g m (total_capacity g * c_rate) ts st =
    Inr \<lparr>soc_val = soc_at m (soc_val st) (length ts),
         soc = soc st @ map (\<lambda>k. soc_at m (soc_val st) (Suc k)) [0 ..< length ts],
         current = current st @
           map (\<lambda>k. current_at m (total_capacity g * c_rate) (soc_at m (soc_val st) (Suc k)))
             [0 ..< length ts],
         voltage = voltage st @
           map (\<lambda>k. voltage_at g m (soc_at m (soc_val st) (Suc k))) [0 ..< length ts]\<rparr>"
  using assms(2,3)
proof (induction ts arbitrary: st)
  case Nil
  then show ?case by (simp add: soc_at_0)
next
  case (Cons t ts)
  let ?st = "\<lparr>soc_val = soc_at m (soc_val st) 1,
         soc = soc st @ [soc_at m (soc_val st) 1],
         current = current st @ [current_at m (total_capacity g * c_rate) (soc_at m (soc_val st) 1)],
         voltage = voltage st @ [voltage_at g m (soc_at m (soc_val st) 1)]\<rparr>"
  have b: "0 \<le> soc_val ?st" "soc_val ?st \<le> 100"
    using Cons.prems by (auto simp add: soc_at_def)
  have "for_loop g m (total_capacity g * c_rate) (t # ts) st =
        for_loop g m (total_capacity g * c_rate) ts ?st"
    by (simp add: loop_body_eq [OF assms(1)])
  also note Cons.IH [OF b]
  finally show ?case
    by (simp add: soc_at_shift map_upt_Suc del: upt_Suc)
qed

lemma arange_grid: "arange 0 (of_int duration + time_step) time_step = map real [0 ..< nat (duration + 1)]"
  by (simp add: arange_def time_step_def) 

lemma simulate_battery_eq:
  assumes "total_capacity g \<noteq> 0"
  shows "simulate_battery g m duration speed =
    Inr \<lparr>Time_s = map real [0 ..< nat (duration + 1)],
         SOC_pct = map (\<lambda>k. soc_at m (if m = ''Charging'' then 0 else 100) (Suc k))
                     [0 ..< nat (duration + 1)],
         Current_A = map (\<lambda>k. current_at m (total_capacity g * c_rate)
                       (soc_at m (if m = ''Charging'' then 0 else 100) (Suc k)))
                     [0 ..< nat (duration + 1)],
         Voltage_V = map (\<lambda>k. voltage_at g m
                       (soc_at m (if m = ''Charging'' then 0 else 100) (Suc k)))
                     [0 ..< nat (duration + 1)]\<rparr>"
  unfolding simulate_battery_def Let_def arange_grid
  by (simp add: for_loop_eq [OF assms])


lemma soc_at_bounds: "0 \<le> s \<Longrightarrow> s \<le> 100 \<Longrightarrow> 0 \<le> soc_at m s k \<and> soc_at m s k \<le> 100"
  by (simp add: soc_at_def)

lemma soc_at_step:
  "(m = ''Charging'' \<longrightarrow> soc_at m s k \<le> soc_at m s (Suc k)) \<and>
   (m \<noteq> ''Charging'' \<longrightarrow> soc_at m s (Suc k) \<le> soc_at m s k)"
  by (simp add: soc_at_def min_def max_def field_simps)

lemma soc_at_full: "i \<le> j \<Longrightarrow> soc_at ''Charging'' s i = 100 \<Longrightarrow> soc_at ''Charging'' s j = 100"
  by (simp add: soc_at_def min_def field_simps split: if_splits)

lemma soc_at_empty:
  "m \<noteq> ''Charging'' \<Longrightarrow> i \<le> j \<Longrightarrow> soc_at m s i = 0 \<Longrightarrow> soc_at m s j = 0"
  by (simp add: soc_at_def max_def field_simps split: if_splits)

lemma saturated_sample:
  assumes "i \<le> j"
    and "m = ''Charging'' \<and> soc_at m (if m = ''Charging'' then 0 else 100) (Suc i) = 100 \<or>
         m = ''Discharging'' \<and> soc_at m (if m = ''Charging'' then 0 else 100) (Suc i) = 0"
  shows "current_at m b (soc_at m (if m = ''Charging'' then 0 else 100) (Suc j)) = 0 \<and>
         soc_at m (if m = ''Charging'' then 0 else 100) (Suc j) =
         soc_at m (if m = ''Charging'' then 0 else 100) (Suc i)"
  using assms(2)
proof (elim disjE conjE)
  assume m: "m = ''Charging''"
    and "soc_at m (if m = ''Charging'' then 0 else 100) (Suc i) = 100"
  then have i: "soc_at ''Charging'' 0 (Suc i) = 100" by simp
  have "soc_at ''Charging'' 0 (Suc j) = 100"
    using soc_at_full [of "Suc i" "Suc j" 0] assms(1) i by simp
  then show ?thesis using m i by (simp add: current_at_def)
next
  assume m: "m = ''Discharging''"
    and "soc_at m (if m = ''Charging'' then 0 else 100) (Suc i) = 0"
  then have i: "soc_at ''Discharging'' 100 (Suc i) = 0" by simp
  have ne: "''Discharging'' \<noteq> ''Charging''" by simp
  have "soc_at ''Discharging'' 100 (Suc j) = 0"
    using soc_at_empty [OF ne, of "Suc i" "Suc j" 100] assms(1) i by simp
  then show ?thesis using m i by (simp add: current_at_def)
qed

section \<open>Properties of the trace\<close>

text \<open>C1. The first row of the table does not hold the initial state. The loop updates the
  state of charge before it appends a sample, so for the NiMH pack with three cells in series
  and two in parallel, run for 10 seconds, the row at time 0 has a state of charge of
  \<open>1 / 72\<close> percent when charging (not 0) and \<open>100 - 1 / 72\<close> percent when
  discharging (not 100), and the charging voltage of that row is above
  \<open>3.6 * 0.85\<close>.\<close>

theorem first_sample_after_one_update:
  "\<exists>cfg df df'.
     b_config ''NiMH'' = Inr cfg \<and>
     total_voltage (battery_parameters cfg 3 2) = 3.6 \<and>
     total_capacity (battery_parameters cfg 3 2) = 4.0 \<and>
     simulate_battery (battery_parameters cfg 3 2) ''Charging'' 10 1 = Inr df \<and>
     Time_s df ! 0 = 0 \<and> SOC_pct df ! 0 = 1 / 72 \<and> SOC_pct df ! 0 \<noteq> 0 \<and>
     Voltage_V df ! 0 = 3.6 * (0.85 + 0.15 * (1 / 7200) powr 0.5) \<and>
     Voltage_V df ! 0 \<noteq> 3.6 * 0.85 \<and>
     simulate_battery (battery_parameters cfg 3 2) ''Discharging'' 10 1 = Inr df' \<and>
     Time_s df' ! 0 = 0 \<and> SOC_pct df' ! 0 = 100 - 1 / 72 \<and> SOC_pct df' ! 0 \<noteq> 100"
proof -
  define cfg where "cfg = \<lparr>b_voltage = 1.2, b_capacity = 2.0, b_efficiency = 0.75\<rparr>"
  define g where "g = battery_parameters cfg 3 2"
  have c: "b_config ''NiMH'' = Inr cfg"
    by (simp add: cfg_def b_config_def battery_types_def)
  have tv: "total_voltage g = 3.6" and tcv: "total_capacity g = 4.0"
    by (simp_all add: g_def cfg_def battery_parameters_def)
  have tc: "total_capacity g \<noteq> 0" unfolding tcv by simp
  have pw: "0 < (1 / 7200 :: real) powr 0.5" by simp
  obtain df where r: "simulate_battery g ''Charging'' 10 1 = Inr df"
    and t: "Time_s df ! 0 = 0" and s: "SOC_pct df ! 0 = 1 / 72"
    and v: "Voltage_V df ! 0 = 3.6 * (0.85 + 0.15 * (1 / 7200) powr 0.5)"
    unfolding simulate_battery_eq [OF tc]
    by (simp add: soc_at_def voltage_at_def tv del: upt_Suc)
  obtain df' where r': "simulate_battery g ''Discharging'' 10 1 = Inr df'"
    and t': "Time_s df' ! 0 = 0" and s': "SOC_pct df' ! 0 = 100 - 1 / 72"
    unfolding simulate_battery_eq [OF tc]
    by (simp add: soc_at_def del: upt_Suc)
  have n: "SOC_pct df ! 0 \<noteq> 0" unfolding s by simp
  have n': "SOC_pct df' ! 0 \<noteq> 100" unfolding s' by simp
  have nv: "Voltage_V df ! 0 \<noteq> 3.6 * 0.85" unfolding v using pw by simp
  show ?thesis
    using c tv tcv r t s n v nv r' t' s' n' unfolding g_def by blast
qed

text \<open>C2. For a pack with positive capacity and an integer duration of at least one second,
  the engine returns a table whose four columns have \<open>duration + 1\<close> entries; the time
  column starts at 0, grows by exactly 1 from each sample to the next, and ends at the
  duration.\<close>

theorem trace_time_grid:
  assumes "0 < total_capacity g" and "1 \<le> duration"
  shows "\<exists>df. simulate_battery g sim_mode duration speed = Inr df \<and>
          length (Time_s df) = nat duration + 1 \<and>
          length (SOC_pct df) = nat duration + 1 \<and>
          length (Current_A df) = nat duration + 1 \<and>
          length (Voltage_V df) = nat duration + 1 \<and>
          (\<forall>i. Suc i < length (Time_s df) \<longrightarrow> Time_s df ! Suc i = Time_s df ! i + 1) \<and>
          Time_s df ! 0 = 0 \<and>
          last (Time_s df) = of_int duration"
proof -
  have tc: "total_capacity g \<noteq> 0" using assms(1) by simp
  have n: "nat (duration + 1) = Suc (nat duration)" using assms(2) by simp
  show ?thesis
    unfolding simulate_battery_eq [OF tc] n using assms(2)
    by (simp add: nth_append last_map del: upt_Suc)
qed

theorem trace_time_grid_witness:
  "0 < total_capacity (battery_parameters \<lparr>b_voltage = 3.7, b_capacity = 2.5, b_efficiency = 0.95\<rparr> 1 1) \<and>
   (1::int) \<le> 60 \<and>
   (\<exists>df. simulate_battery (battery_parameters \<lparr>b_voltage = 3.7, b_capacity = 2.5, b_efficiency = 0.95\<rparr> 1 1)
           ''Charging'' 60 1 = Inr df \<and>
         length (Time_s df) = 61 \<and> length (SOC_pct df) = 61 \<and>
         length (Current_A df) = 61 \<and> length (Voltage_V df) = 61 \<and>
         Time_s df ! 1 = Time_s df ! 0 + 1 \<and>
         Time_s df ! 0 = 0 \<and> last (Time_s df) = 60)"
proof -
  let ?g = "battery_parameters \<lparr>b_voltage = 3.7, b_capacity = 2.5, b_efficiency = 0.95\<rparr> 1 1"
  have p: "0 < total_capacity ?g" by (simp add: battery_parameters_def)
  have d: "(1::int) \<le> 60" by simp
  from trace_time_grid [OF p d, of "''Charging''" 1]
  obtain df where r: "simulate_battery ?g ''Charging'' 60 1 = Inr df"
    and l: "length (Time_s df) = nat 60 + 1" "length (SOC_pct df) = nat 60 + 1"
           "length (Current_A df) = nat 60 + 1" "length (Voltage_V df) = nat 60 + 1"
    and s: "\<forall>i. Suc i < length (Time_s df) \<longrightarrow> Time_s df ! Suc i = Time_s df ! i + 1"
    and e: "Time_s df ! 0 = 0" "last (Time_s df) = of_int 60"
    by blast
  have "Time_s df ! 1 = Time_s df ! 0 + 1" using s l(1) by simp
  then show ?thesis using p r l e by simp
qed

text \<open>C3. For a pack with positive capacity the engine returns a table, and every entry of
  its state-of-charge column lies between 0 and 100, in either mode.\<close>

theorem soc_within_bounds:
  assumes "0 < total_capacity g"
  shows "\<exists>df. simulate_battery g sim_mode duration speed = Inr df \<and>
          length (SOC_pct df) = nat (duration + 1) \<and>
          (\<forall>i < length (SOC_pct df). 0 \<le> SOC_pct df ! i \<and> SOC_pct df ! i \<le> 100)"
proof -
  have tc: "total_capacity g \<noteq> 0" using assms by simp
  show ?thesis
    unfolding simulate_battery_eq [OF tc]
    by (simp add: soc_at_bounds)
qed

theorem soc_within_bounds_witness:
  "0 < total_capacity \<lparr>total_voltage = 3.7, total_capacity = 2.5\<rparr> \<and>
   (\<exists>df. simulate_battery \<lparr>total_voltage = 3.7, total_capacity = 2.5\<rparr> ''Discharging'' 60 1 = Inr df \<and>
         length (SOC_pct df) = 61 \<and> 0 \<le> SOC_pct df ! 60 \<and> SOC_pct df ! 60 \<le> 100)"
proof -
  let ?g = "\<lparr>total_voltage = 3.7, total_capacity = 2.5\<rparr>"
  have p: "0 < total_capacity ?g" by simp
  from soc_within_bounds [OF p, of "''Discharging''" 60 1]
  obtain df where r: "simulate_battery ?g ''Discharging'' 60 1 = Inr df"
    and l: "length (SOC_pct df) = nat (60 + 1)"
    and b: "\<forall>i < length (SOC_pct df). 0 \<le> SOC_pct df ! i \<and> SOC_pct df ! i \<le> 100"
    by blast
  have "0 \<le> SOC_pct df ! 60 \<and> SOC_pct df ! 60 \<le> 100" using b l by simp
  then show ?thesis using r l by simp
qed

text \<open>C4. For a pack with positive capacity, the state-of-charge column never decreases from
  one sample to the next when charging, and never increases when discharging.\<close>

theorem soc_monotone:
  assumes "0 < total_capacity g"
  shows "\<exists>df. simulate_battery g sim_mode duration speed = Inr df \<and>
          length (SOC_pct df) = nat (duration + 1) \<and>
          (sim_mode = ''Charging'' \<longrightarrow>
             (\<forall>i. Suc i < length (SOC_pct df) \<longrightarrow> SOC_pct df ! i \<le> SOC_pct df ! Suc i)) \<and>
          (sim_mode = ''Discharging'' \<longrightarrow>
             (\<forall>i. Suc i < length (SOC_pct df) \<longrightarrow> SOC_pct df ! Suc i \<le> SOC_pct df ! i))"
proof -
  have tc: "total_capacity g \<noteq> 0" using assms by simp
  have ne: "''Discharging'' \<noteq> ''Charging''" by simp
  show ?thesis
    unfolding simulate_battery_eq [OF tc]
    using soc_at_step [of sim_mode] by (auto simp del: upt_Suc)
qed

theorem soc_monotone_witness:
  "0 < total_capacity \<lparr>total_voltage = 3.7, total_capacity = 2.5\<rparr> \<and>
   (\<exists>df. simulate_battery \<lparr>total_voltage = 3.7, total_capacity = 2.5\<rparr> ''Charging'' 60 1 = Inr df \<and>
         length (SOC_pct df) = 61 \<and> SOC_pct df ! 0 \<le> SOC_pct df ! 1) \<and>
   (\<exists>df. simulate_battery \<lparr>total_voltage = 3.7, total_capacity = 2.5\<rparr> ''Discharging'' 60 1 = Inr df \<and>
         length (SOC_pct df) = 61 \<and> SOC_pct df ! 1 \<le> SOC_pct df ! 0)"
proof -
  let ?g = "\<lparr>total_voltage = 3.7, total_capacity = 2.5\<rparr>"
  have p: "0 < total_capacity ?g" by simp
  from soc_monotone [OF p, of "''Charging''" 60 1]
  obtain df where r: "simulate_battery ?g ''Charging'' 60 1 = Inr df"
    and l: "length (SOC_pct df) = nat (60 + 1)"
    and u: "\<forall>i. Suc i < length (SOC_pct df) \<longrightarrow> SOC_pct df ! i \<le> SOC_pct df ! Suc i"
    by blast
  have c: "SOC_pct df ! 0 \<le> SOC_pct df ! 1" using u l by simp
  from soc_monotone [OF p, of "''Discharging''" 60 1]
  obtain df' where r': "simulate_battery ?g ''Discharging'' 60 1 = Inr df'"
    and l': "length (SOC_pct df') = nat (60 + 1)"
    and u': "\<forall>i. Suc i < length (SOC_pct df') \<longrightarrow> SOC_pct df' ! Suc i \<le> SOC_pct df' ! i"
    by blast
  have c': "SOC_pct df' ! 1 \<le> SOC_pct df' ! 0" using u' l' by simp
  show ?thesis using p r l c r' l' c' by simp
qed

text \<open>C5. For a pack with positive capacity, once a sample has a state of charge of 100
  (charging) or 0 (discharging), that sample and every later one has current 0 and the same
  state of charge; the table still has all \<open>duration + 1\<close> rows, so the engine does
  not stop at saturation.\<close>

theorem saturation_cuts_current:
  assumes "0 < total_capacity g"
  shows "\<exists>df. simulate_battery g sim_mode duration speed = Inr df \<and>
          length (SOC_pct df) = nat (duration + 1) \<and>
          length (Current_A df) = nat (duration + 1) \<and>
          (\<forall>i j. i \<le> j \<and> j < nat (duration + 1) \<and>
                 (sim_mode = ''Charging'' \<and> SOC_pct df ! i = 100 \<or>
                  sim_mode = ''Discharging'' \<and> SOC_pct df ! i = 0) \<longrightarrow>
                 Current_A df ! j = 0 \<and> SOC_pct df ! j = SOC_pct df ! i)"
proof -
  have tc: "total_capacity g \<noteq> 0" using assms by simp
  show ?thesis
    unfolding simulate_battery_eq [OF tc]
  proof (intro exI conjI allI impI)
    fix i j
    let ?df = "\<lparr>Time_s = map real [0 ..< nat (duration + 1)],
         SOC_pct = map (\<lambda>k. soc_at sim_mode (if sim_mode = ''Charging'' then 0 else 100) (Suc k))
                     [0 ..< nat (duration + 1)],
         Current_A = map (\<lambda>k. current_at sim_mode (total_capacity g * c_rate)
                       (soc_at sim_mode (if sim_mode = ''Charging'' then 0 else 100) (Suc k)))
                     [0 ..< nat (duration + 1)],
         Voltage_V = map (\<lambda>k. voltage_at g sim_mode
                       (soc_at sim_mode (if sim_mode = ''Charging'' then 0 else 100) (Suc k)))
                     [0 ..< nat (duration + 1)]\<rparr>"
    assume h: "i \<le> j \<and> j < nat (duration + 1) \<and>
       (sim_mode = ''Charging'' \<and> SOC_pct ?df ! i = 100 \<or>
        sim_mode = ''Discharging'' \<and> SOC_pct ?df ! i = 0)"
    then have ij: "i \<le> j" and j: "j < nat (duration + 1)" and i: "i < nat (duration + 1)"
      by simp_all
    have sat: "sim_mode = ''Charging'' \<and>
         soc_at sim_mode (if sim_mode = ''Charging'' then 0 else 100) (Suc i) = 100 \<or>
         sim_mode = ''Discharging'' \<and>
         soc_at sim_mode (if sim_mode = ''Charging'' then 0 else 100) (Suc i) = 0"
      using h i by (simp del: upt_Suc)
    let ?S = "\<lambda>k. soc_at sim_mode (if sim_mode = ''Charging'' then 0 else 100) (Suc k)"
    have c: "current_at sim_mode (total_capacity g * c_rate) (?S j) = 0" and e: "?S j = ?S i"
      using saturated_sample [OF ij sat] by blast+
    have "Current_A ?df ! j = current_at sim_mode (total_capacity g * c_rate) (?S j)"
      using j by (simp del: upt_Suc)
    then show "Current_A ?df ! j = 0" by (simp only: c)
    have "SOC_pct ?df ! j = ?S j" "SOC_pct ?df ! i = ?S i"
      using i j by (simp_all del: upt_Suc)
    then show "SOC_pct ?df ! j = SOC_pct ?df ! i" by (simp only: e)
  qed (simp_all del: upt_Suc)
qed

theorem saturation_cuts_current_witness:
  "0 < total_capacity \<lparr>total_voltage = 3.7, total_capacity = 2.5\<rparr> \<and>
   (\<exists>df. simulate_battery \<lparr>total_voltage = 3.7, total_capacity = 2.5\<rparr> ''Charging'' 7300 1 = Inr df \<and>
         length (Current_A df) = 7301 \<and> SOC_pct df ! 7200 = 100 \<and>
         Current_A df ! 7200 = 0 \<and> Current_A df ! 7300 = 0 \<and> SOC_pct df ! 7300 = 100) \<and>
   (\<exists>df. simulate_battery \<lparr>total_voltage = 3.7, total_capacity = 2.5\<rparr> ''Discharging'' 7300 1 = Inr df \<and>
         length (Current_A df) = 7301 \<and> SOC_pct df ! 7200 = 0 \<and>
         Current_A df ! 7200 = 0 \<and> Current_A df ! 7300 = 0 \<and> SOC_pct df ! 7300 = 0)"
proof -
  let ?g = "\<lparr>total_voltage = 3.7, total_capacity = 2.5\<rparr>"
  have p: "0 < total_capacity ?g" by simp
  have tc: "total_capacity ?g \<noteq> 0" by simp
  from saturation_cuts_current [OF p, of "''Charging''" 7300 1]
  obtain df where r: "simulate_battery ?g ''Charging'' 7300 1 = Inr df"
    and l: "length (Current_A df) = nat (7300 + 1)"
    and u: "\<forall>i j. i \<le> j \<and> j < nat (7300 + 1) \<and>
                 (''Charging'' = ''Charging'' \<and> SOC_pct df ! i = 100 \<or>
                  ''Charging'' = ''Discharging'' \<and> SOC_pct df ! i = 0) \<longrightarrow>
                 Current_A df ! j = 0 \<and> SOC_pct df ! j = SOC_pct df ! i"
    by blast
  have s: "SOC_pct df ! 7200 = 100"
    using r unfolding simulate_battery_eq [OF tc] by (auto simp add: soc_at_def)
  have a: "Current_A df ! 7200 = 0" using u [rule_format, of 7200 7200] s by simp
  have b: "Current_A df ! 7300 = 0 \<and> SOC_pct df ! 7300 = 100"
    using u [rule_format, of 7200 7300] s by simp
  from saturation_cuts_current [OF p, of "''Discharging''" 7300 1]
  obtain df' where r': "simulate_battery ?g ''Discharging'' 7300 1 = Inr df'"
    and l': "length (Current_A df') = nat (7300 + 1)"
    and u': "\<forall>i j. i \<le> j \<and> j < nat (7300 + 1) \<and>
                 (''Discharging'' = ''Charging'' \<and> SOC_pct df' ! i = 100 \<or>
                  ''Discharging'' = ''Discharging'' \<and> SOC_pct df' ! i = 0) \<longrightarrow>
                 Current_A df' ! j = 0 \<and> SOC_pct df' ! j = SOC_pct df' ! i"
    by blast
  have s': "SOC_pct df' ! 7200 = 0"
    using r' unfolding simulate_battery_eq [OF tc] by (auto simp add: soc_at_def)
  have a': "Current_A df' ! 7200 = 0" using u' [rule_format, of 7200 7200] s' by simp
  have b': "Current_A df' ! 7300 = 0 \<and> SOC_pct df' ! 7300 = 0"
    using u' [rule_format, of 7200 7300] s' by simp
  show ?thesis using p r l s a b r' l' s' a' b' by simp
qed

text \<open>C6. For a pack with positive capacity, the voltage of every sample is the total voltage
  times the factor computed from the state of charge stored in the same row:
  \<open>0.85 + 0.15 * (soc / 100) ** 0.5\<close> when charging and
  \<open>0.75 + 0.25 * (soc / 100)\<close> when discharging.\<close>

theorem voltage_from_soc:
  assumes "0 < total_capacity g"
  shows "\<exists>df. simulate_battery g sim_mode duration speed = Inr df \<and>
          length (SOC_pct df) = nat (duration + 1) \<and>
          length (Voltage_V df) = nat (duration + 1) \<and>
          (\<forall>i < nat (duration + 1).
             Voltage_V df ! i =
               total_voltage g *
                 (if sim_mode = ''Charging''
                  then 0.85 + 0.15 * (SOC_pct df ! i / 100) powr 0.5
                  else 0.75 + 0.25 * (SOC_pct df ! i / 100)))"
proof -
  have tc: "total_capacity g \<noteq> 0" using assms by simp
  show ?thesis
    unfolding simulate_battery_eq [OF tc]
    by (simp add: voltage_at_def del: upt_Suc)
qed

theorem voltage_from_soc_witness:
  "0 < total_capacity \<lparr>total_voltage = 3.6, total_capacity = 4.0\<rparr> \<and>
   (\<exists>df. simulate_battery \<lparr>total_voltage = 3.6, total_capacity = 4.0\<rparr> ''Charging'' 10 1 = Inr df \<and>
         length (Voltage_V df) = 11 \<and>
         Voltage_V df ! 10 = 3.6 * (0.85 + 0.15 * (SOC_pct df ! 10 / 100) powr 0.5)) \<and>
   (\<exists>df. simulate_battery \<lparr>total_voltage = 3.6, total_capacity = 4.0\<rparr> ''Discharging'' 10 1 = Inr df \<and>
         length (Voltage_V df) = 11 \<and>
         Voltage_V df ! 10 = 3.6 * (0.75 + 0.25 * (SOC_pct df ! 10 / 100)))"
proof -
  let ?g = "\<lparr>total_voltage = 3.6, total_capacity = 4.0\<rparr>"
  have p: "0 < total_capacity ?g" by simp
  from voltage_from_soc [OF p, of "''Charging''" 10 1]
  obtain df where r: "simulate_battery ?g ''Charging'' 10 1 = Inr df"
    and l: "length (Voltage_V df) = nat (10 + 1)"
    and u: "\<forall>i < nat (10 + 1). Voltage_V df ! i = total_voltage ?g *
                 (if ''Charging'' = ''Charging''
                  then 0.85 + 0.15 * (SOC_pct df ! i / 100) powr 0.5
                  else 0.75 + 0.25 * (SOC_pct df ! i / 100))"
    by blast
  have a: "Voltage_V df ! 10 = 3.6 * (0.85 + 0.15 * (SOC_pct df ! 10 / 100) powr 0.5)"
    using u [rule_format, of 10] by simp
  from voltage_from_soc [OF p, of "''Discharging''" 10 1]
  obtain df' where r': "simulate_battery ?g ''Discharging'' 10 1 = Inr df'"
    and l': "length (Voltage_V df') = nat (10 + 1)"
    and u': "\<forall>i < nat (10 + 1). Voltage_V df' ! i = total_voltage ?g *
                 (if ''Discharging'' = ''Charging''
                  then 0.85 + 0.15 * (SOC_pct df' ! i / 100) powr 0.5
                  else 0.75 + 0.25 * (SOC_pct df' ! i / 100))"
    by blast
  have a': "Voltage_V df' ! 10 = 3.6 * (0.75 + 0.25 * (SOC_pct df' ! 10 / 100))"
    using u' [rule_format, of 10] by simp
  show ?thesis using p r l a r' l' a' by simp
qed

text \<open>C7. The scenario Lithium-Ion, one cell in series, one in parallel, 60 seconds,
  charging: the totals are 3.7 and 2.5, the base current is 1.25 and the change per step is
  \<open>1 / 72\<close>; but the sample at time 60 is the result of 61 updates, so its state of
  charge is \<open>61 / 72\<close> (about 0.847), and the value \<open>60 / 72\<close> (about 0.833)
  belongs to the sample at time 59.\<close>

theorem scenario_lithium_ion_60s:
  "\<exists>cfg df.
     b_config ''Lithium-Ion'' = Inr cfg \<and>
     total_voltage (battery_parameters cfg 1 1) = 3.7 \<and>
     total_capacity (battery_parameters cfg 1 1) = 2.5 \<and>
     total_capacity (battery_parameters cfg 1 1) * c_rate = 1.25 \<and>
     simulate_battery (battery_parameters cfg 1 1) ''Charging'' 60 1 = Inr df \<and>
     length (SOC_pct df) = 61 \<and>
     Current_A df ! 60 = 1.25 \<and>
     SOC_pct df ! 1 - SOC_pct df ! 0 = 1 / 72 \<and>
     Time_s df ! 60 = 60 \<and>
     SOC_pct df ! 60 = 61 / 72 \<and>
     SOC_pct df ! 59 = 60 / 72 \<and>
     0.847 < SOC_pct df ! 60 \<and>
     \<not> \<bar>SOC_pct df ! 60 - 0.833\<bar> < 0.01"
proof -
  define cfg where "cfg = \<lparr>b_voltage = 3.7, b_capacity = 2.5, b_efficiency = 0.95\<rparr>"
  define g where "g = battery_parameters cfg 1 1"
  have c: "b_config ''Lithium-Ion'' = Inr cfg"
    by (simp add: cfg_def b_config_def battery_types_def)
  have tv: "total_voltage g = 3.7" and tcv: "total_capacity g = 2.5"
    by (simp_all add: g_def cfg_def battery_parameters_def)
  have bc: "total_capacity g * c_rate = 1.25" unfolding tcv by (simp add: c_rate_def)
  have tc: "total_capacity g \<noteq> 0" unfolding tcv by simp
  obtain df where r: "simulate_battery g ''Charging'' 60 1 = Inr df"
    and l: "length (SOC_pct df) = 61"
    and i: "Current_A df ! 60 = 1.25"
    and t: "Time_s df ! 60 = 60"
    and s0: "SOC_pct df ! 0 = 1 / 72" and s1: "SOC_pct df ! 1 = 2 / 72"
    and s59: "SOC_pct df ! 59 = 60 / 72" and s60: "SOC_pct df ! 60 = 61 / 72"
    unfolding simulate_battery_eq [OF tc] bc
    by (simp add: soc_at_def current_at_def del: upt_Suc)
  have d: "SOC_pct df ! 1 - SOC_pct df ! 0 = 1 / 72" unfolding s0 s1 by simp
  have a: "0.847 < SOC_pct df ! 60" unfolding s60 by simp
  have b: "\<not> \<bar>SOC_pct df ! 60 - 0.833\<bar> < 0.01" unfolding s60 by simp
  show ?thesis
    using c tv tcv bc r l i d t s60 s59 a b unfolding g_def by blast
qed

text \<open>C8. The chemistry table has exactly the four entries of the source, in that order;
  the pack totals are the cell voltage times the series count and the cell capacity times
  the parallel count; for an entry of the table and positive counts both totals are
  positive.\<close>

theorem pack_parameter_resolver:
  "(map_of battery_types name = Some cfg \<longleftrightarrow>
      (name, cfg) \<in>
        {(''Lithium-Ion'', \<lparr>b_voltage = 3.7, b_capacity = 2.5, b_efficiency = 0.95\<rparr>),
         (''Lead-Acid'', \<lparr>b_voltage = 2.0, b_capacity = 5.0, b_efficiency = 0.85\<rparr>),
         (''NiMH'', \<lparr>b_voltage = 1.2, b_capacity = 2.0, b_efficiency = 0.75\<rparr>),
         (''Solid-State'', \<lparr>b_voltage = 3.8, b_capacity = 3.0, b_efficiency = 0.98\<rparr>)}) \<and>
   map fst battery_types = [''Lithium-Ion'', ''Lead-Acid'', ''NiMH'', ''Solid-State''] \<and>
   total_voltage (battery_parameters cfg series_cells parallel_cells) =
     b_voltage cfg * of_int series_cells \<and>
   total_capacity (battery_parameters cfg series_cells parallel_cells) =
     b_capacity cfg * of_int parallel_cells \<and>
   (map_of battery_types name = Some cfg \<longrightarrow> 0 < series_cells \<longrightarrow> 0 < parallel_cells \<longrightarrow>
      0 < total_voltage (battery_parameters cfg series_cells parallel_cells) \<and>
      0 < total_capacity (battery_parameters cfg series_cells parallel_cells))"
proof -
  have tab: "map_of battery_types name = Some cfg \<longleftrightarrow>
      (name, cfg) \<in>
        {(''Lithium-Ion'', \<lparr>b_voltage = 3.7, b_capacity = 2.5, b_efficiency = 0.95\<rparr>),
         (''Lead-Acid'', \<lparr>b_voltage = 2.0, b_capacity = 5.0, b_efficiency = 0.85\<rparr>),
         (''NiMH'', \<lparr>b_voltage = 1.2, b_capacity = 2.0, b_efficiency = 0.75\<rparr>),
         (''Solid-State'', \<lparr>b_voltage = 3.8, b_capacity = 3.0, b_efficiency = 0.98\<rparr>)}"
    unfolding battery_types_def by auto
  have pos: "0 < b_voltage cfg \<and> 0 < b_capacity cfg" if "map_of battery_types name = Some cfg"
    using that unfolding tab by auto
  have keys: "map fst battery_types = [''Lithium-Ion'', ''Lead-Acid'', ''NiMH'', ''Solid-State'']"
    by (simp add: battery_types_def)
  show ?thesis
    using tab pos keys by (simp add: battery_parameters_def)
qed

theorem pack_parameter_resolver_witness:
  "map_of battery_types ''NiMH'' = Some \<lparr>b_voltage = 1.2, b_capacity = 2.0, b_efficiency = 0.75\<rparr> \<and>
   (0::int) < 3 \<and> (0::int) < 2 \<and>
   total_voltage (battery_parameters \<lparr>b_voltage = 1.2, b_capacity = 2.0, b_efficiency = 0.75\<rparr> 3 2) = 3.6 \<and>
   total_capacity (battery_parameters \<lparr>b_voltage = 1.2, b_capacity = 2.0, b_efficiency = 0.75\<rparr> 3 2) = 4.0 \<and>
   0 < total_voltage (battery_parameters \<lparr>b_voltage = 1.2, b_capacity = 2.0, b_efficiency = 0.75\<rparr> 3 2) \<and>
   0 < total_capacity (battery_parameters \<lparr>b_voltage = 1.2, b_capacity = 2.0, b_efficiency = 0.75\<rparr> 3 2)"
  using pack_parameter_resolver
    [of "''NiMH''" "\<lparr>b_voltage = 1.2, b_capacity = 2.0, b_efficiency = 0.75\<rparr>" 3 2]
  by simp



text \<open>C10. The argument \<open>speed\<close> has no effect on the returned table: two calls that
  differ only in the speed return the same four columns, or the same exception.\<close>

theorem speed_has_no_effect:
  "simulate_battery g sim_mode duration speed1 = simulate_battery g sim_mode duration speed2"
  by (simp add: simulate_battery_def)

end
